theory Spec2Isabelle
  imports Complex_Main
begin

section \<open>Data model (src/types.ts)\<close>

text \<open>
  JavaScript numbers are modelled as \<open>int\<close>: the numbers of the orchestrator are counters,
  indices, targets of sets and repetitions and whole seconds, which it compares and changes
  by \<open>+ 1\<close> and \<open>- 1\<close> only. Strings are \<open>string\<close>; a value that may be \<open>undefined\<close> or
  \<open>null\<close> is an \<open>option\<close>.
\<close>

datatype Difficulty = EASY | MEDIUM | HARD

text \<open>
  \<open>interface Exercise\<close>. The fields \<open>id\<close> and \<open>name\<close> carry the prefix \<open>ex_\<close>: \<open>id\<close> is a
  constant of HOL, and \<open>name\<close> is a field of the tool call as well.
\<close>

record Exercise =
  ex_id :: string
  ex_name :: string
  muscleGroup :: string
  description :: string
  targetReps :: int
  targetSets :: int
  restSeconds :: int
  difficulty :: "Difficulty option"

record SetLog =
  reps :: int
  weight :: "int option"
  rpe :: "int option"

record ExerciseLog =
  exerciseId :: string
  sets :: "SetLog list"

text \<open>\<open>interface WorkoutSession\<close>, the history record.\<close>

record WorkoutSession =
  ws_id :: string
  ws_date :: string
  ws_exercises :: "ExerciseLog list"

record WorkoutState =
  isActive :: bool
  currentExerciseIndex :: int
  currentSet :: int
  timer :: int
  isResting :: bool

section \<open>Faults and array reads\<close>

text \<open>
  \<open>TypeError\<close>: a property read on \<open>undefined\<close>. \<open>RangeError\<close>: \<open>Array(n)\<close> with an \<open>n\<close> that
  is not an array length.
\<close>

datatype fault = TypeError | RangeError

text \<open>
  \<open>xs[i]\<close> in JavaScript: the element when \<open>0 \<le> i < xs.length\<close>, and \<open>undefined\<close> (here
  \<open>None\<close>) everywhere else; reading out of range does not throw by itself.
\<close>

definition js_index :: "'a list \<Rightarrow> int \<Rightarrow> 'a option" where
  "js_index xs i = (if 0 \<le> i \<and> i < int (length xs) then Some (xs ! nat i) else None)"

section \<open>The workout state machine (handleTrainerAction, src/App.tsx)\<close>

text \<open>
  The function passed to \<open>setWorkoutState\<close> in \<open>handleTrainerAction\<close>. It reads
  \<open>activeExercises\<close> from the closure of the render that created it, so the list is a
  parameter of its own, next to the previous state \<open>prev\<close> that React passes in. The action is
  \<open>fc.args.action\<close>, an \<open>option\<close> because the argument may be missing. The two side effects
  of the updater are returned as a list: \<open>setTimeout(stopWorkout, 2000)\<close> is \<open>ScheduleStop\<close>,
  \<open>startRestTimer(n)\<close> is \<open>StartRestTimer n\<close>. \<open>currentEx.targetSets\<close> on an \<open>undefined\<close>
  \<open>currentEx\<close> is the \<open>TypeError\<close>; it is reached only for the action \<open>finish_set\<close>.
\<close>

datatype effect = ScheduleStop | StartRestTimer int

definition handleTrainerAction ::
  "Exercise list \<Rightarrow> string option \<Rightarrow> WorkoutState \<Rightarrow> fault + (WorkoutState \<times> effect list)" where
  "handleTrainerAction activeExercises action prev =
     (let currentEx = js_index activeExercises (currentExerciseIndex prev) in
      if action = Some ''finish_set'' then
        (case currentEx of
           None \<Rightarrow> Inl TypeError
         | Some ex \<Rightarrow>
             (let isLastSet = (currentSet prev \<ge> targetSets ex) in
              if isLastSet then
                (let isLastEx = (currentExerciseIndex prev \<ge> int (length activeExercises) - 1) in
                 if isLastEx then Inr (prev\<lparr>isActive := False\<rparr>, [ScheduleStop])
                 else Inr (prev\<lparr>currentExerciseIndex := currentExerciseIndex prev + 1,
                                currentSet := 1, timer := 0, isResting := False\<rparr>, []))
              else Inr (prev\<lparr>currentSet := currentSet prev + 1, timer := restSeconds ex,
                             isResting := True\<rparr>, [StartRestTimer (restSeconds ex)])))
      else Inr (prev, []))"

section \<open>The component state (App, src/App.tsx)\<close>

text \<open>
  A callback of the component reads \<open>activeExercises\<close> and \<open>workoutState\<close> from the render
  that created it, not from the state at the time it runs. \<open>Render\<close> is that snapshot, and
  every callback below takes it as a parameter. The callbacks wired into the remote session
  (\<open>onmessage\<close>) keep the snapshot of the render in which \<open>handleStartWorkout\<close> was called.
\<close>

record Render =
  r_activeExercises :: "Exercise list"
  r_currentExerciseIndex :: int

text \<open>
  Modelled from the spec: the types of the tool call and of its response belong to the package
  \<open>@google/genai\<close>, which is not part of the sources. They follow the data model of the
  specification: a tool call is an id, a name and a mapping of strings to strings; the
  response holds the fields \<open>onmessage\<close> writes. A call may arrive without arguments:
  \<open>fc_args\<close> is \<open>None\<close> when \<open>fc.args\<close> is \<open>undefined\<close>. An argument that is not a string is
  equal to none of the action names, and behaves as an unrecognised string does.
\<close>

record FunctionCall =
  fc_id :: string
  fc_name :: string
  fc_args :: "(string \<rightharpoonup> string) option"

record FunctionResponse =
  fr_id :: string
  fr_name :: string
  fr_result :: string

text \<open>
  The state hooks and refs of \<open>App\<close>, and what the component owns outside React:
  \<^item> \<open>intervals\<close>: the live timers made by \<open>window.setInterval\<close>, each with the variable
    \<open>remaining\<close> of its callback; \<open>nextIntervalId\<close> is the id the next call returns (ids are
    positive, so a stored id is truthy);
  \<^item> \<open>pendingStops\<close>: the \<open>setTimeout(stopWorkout, 2000)\<close> callbacks not yet run, each with
    the \<open>activeExercises\<close> its \<open>stopWorkout\<close> closed over;
  \<^item> \<open>closeCalls\<close>: the session handles on which \<open>close()\<close> was called, in order;
  \<^item> \<open>toolResponses\<close>: the \<open>sendToolResponse\<close> calls, in order;
  \<^item> \<open>realtimeInputs\<close>: the difficulty notices sent with \<open>sendRealtimeInput\<close>, as the
    difficulty and the new target reps and sets that the text is built from;
  \<^item> \<open>renderError\<close>: a fault thrown by a state updater. React runs an updater when it
    renders, not inside \<open>setWorkoutState\<close>, so the fault does not unwind the caller.
\<close>

record App =
  isWorkoutActive :: bool
  workoutState :: WorkoutState
  activeExercises :: "Exercise list"
  history :: "WorkoutSession list"
  sessionRef :: "nat option"
  timerIntervalRef :: "nat option"
  intervals :: "(nat \<times> int) list"
  nextIntervalId :: nat
  pendingStops :: "Exercise list list"
  closeCalls :: "nat list"
  toolResponses :: "FunctionResponse list"
  realtimeInputs :: "(string option \<times> int \<times> int) list"
  renderError :: "fault option"

text \<open>
  A callback that throws keeps the mutations it made before: \<open>Threw e app\<close> is the fault and
  the state left behind.
\<close>

datatype 'a outcome = Done 'a | Threw fault 'a

fun state_of :: "'a outcome \<Rightarrow> 'a" where
  "state_of (Done a) = a"
| "state_of (Threw e a) = a"

subsection \<open>Rest timer (startRestTimer)\<close>

definition clearInterval :: "nat \<Rightarrow> App \<Rightarrow> App" where
  "clearInterval t app = app\<lparr>intervals := filter (\<lambda>(k, r). k \<noteq> t) (intervals app)\<rparr>"

definition startRestTimer :: "int \<Rightarrow> App \<Rightarrow> App" where
  "startRestTimer seconds app =
     (let app1 = (case timerIntervalRef app of None \<Rightarrow> app | Some t \<Rightarrow> clearInterval t app);
          t' = nextIntervalId app1
      in app1\<lparr>intervals := intervals app1 @ [(t', seconds)],
               nextIntervalId := Suc t',
               timerIntervalRef := Some t'\<rparr>)"

text \<open>
  One run of the interval callback of timer \<open>t\<close>; a cleared timer does not run. The two
  \<open>setWorkoutState\<close> calls of the callback are applied one after the other.
\<close>

definition tick :: "nat \<Rightarrow> App \<Rightarrow> App" where
  "tick t app =
     (case map_of (intervals app) t of
        None \<Rightarrow> app
      | Some r \<Rightarrow>
          (let remaining = r - 1;
               app1 = app\<lparr>intervals :=
                            map (\<lambda>(k, v). if k = t then (k, remaining) else (k, v)) (intervals app),
                          workoutState := (workoutState app)\<lparr>timer := remaining\<rparr>\<rparr>
           in if remaining \<le> 0
              then (let app2 = (case timerIntervalRef app1 of
                                  None \<Rightarrow> app1
                                | Some c \<Rightarrow> clearInterval c app1)
                    in app2\<lparr>workoutState := (workoutState app2)\<lparr>isResting := False\<rparr>\<rparr>)
              else app1))"

text \<open>One second passes: every timer that is live at its start fires once.\<close>

definition second :: "App \<Rightarrow> App" where
  "second app = fold tick (map fst (intervals app)) app"

subsection \<open>Session teardown (stopWorkout)\<close>

text \<open>\<open>Array(n).fill(x)\<close>: \<open>Array(n)\<close> throws a \<open>RangeError\<close> unless \<open>0 \<le> n < 2^32\<close>.\<close>

definition js_Array_fill :: "int \<Rightarrow> 'a \<Rightarrow> fault + 'a list" where
  "js_Array_fill n x = (if 0 \<le> n \<and> n < 2 ^ 32 then Inr (replicate (nat n) x) else Inl RangeError)"

text \<open>The \<open>activeExercises.map(...)\<close> of \<open>stopWorkout\<close>.\<close>

fun sessionExercises :: "Exercise list \<Rightarrow> fault + ExerciseLog list" where
  "sessionExercises [] = Inr []"
| "sessionExercises (ex # exs) =
     (case js_Array_fill (targetSets ex) \<lparr>reps = targetReps ex, weight = None, rpe = None\<rparr> of
        Inl e \<Rightarrow> Inl e
      | Inr ss \<Rightarrow>
          (case sessionExercises exs of
             Inl e \<Rightarrow> Inl e
           | Inr logs \<Rightarrow> Inr (\<lparr>exerciseId = ex_id ex, sets = ss\<rparr> # logs)))"

text \<open>
  \<open>stopWorkout\<close>, with the \<open>activeExercises\<close> of its closure and the two readings of the clock
  (\<open>Date.now().toString()\<close> and \<open>new Date().toISOString()\<close>) as parameters.
\<close>

definition stopWorkout :: "Exercise list \<Rightarrow> string \<Rightarrow> string \<Rightarrow> App \<Rightarrow> App outcome" where
  "stopWorkout exs nowId nowIso app =
     (let app1 = app\<lparr>isWorkoutActive := False,
                      workoutState := (workoutState app)\<lparr>isActive := False\<rparr>\<rparr>;
          app2 = (case sessionRef app1 of
                    None \<Rightarrow> app1
                  | Some h \<Rightarrow> app1\<lparr>closeCalls := closeCalls app1 @ [h], sessionRef := None\<rparr>);
          app3 = (case timerIntervalRef app2 of None \<Rightarrow> app2 | Some t \<Rightarrow> clearInterval t app2)
      in case sessionExercises exs of
           Inl e \<Rightarrow> Threw e app3
         | Inr logs \<Rightarrow>
             Done (app3\<lparr>history :=
                          \<lparr>ws_id = nowId, ws_date = nowIso, ws_exercises = logs\<rparr> # history app3\<rparr>))"


subsection \<open>Dispatch of the trainer action\<close>

fun applyEffect :: "Exercise list \<Rightarrow> effect \<Rightarrow> App \<Rightarrow> App" where
  "applyEffect exs ScheduleStop app = app\<lparr>pendingStops := pendingStops app @ [exs]\<rparr>"
| "applyEffect exs (StartRestTimer n) app = startRestTimer n app"

text \<open>
  The call \<open>handleTrainerAction(action)\<close>: \<open>setWorkoutState\<close> with the updater above. A fault
  of the updater is recorded in \<open>renderError\<close> and the state stays as it was.
\<close>

definition dispatchTrainerAction :: "Render \<Rightarrow> string option \<Rightarrow> App \<Rightarrow> App" where
  "dispatchTrainerAction r action app =
     (case handleTrainerAction (r_activeExercises r) action (workoutState app) of
        Inl e \<Rightarrow> app\<lparr>renderError := Some e\<rparr>
      | Inr (s', effs) \<Rightarrow>
          (fold (applyEffect (r_activeExercises r)) effs app)\<lparr>workoutState := s'\<rparr>)"

subsection \<open>Difficulty change (handleDifficultyChange)\<close>

text \<open>
  \<open>adjustExerciseByDifficulty\<close> of \<open>services/workoutService\<close> is not part of the sources and
  is a parameter here: a pure function of an exercise and a difficulty to an exercise. The
  difficulty is the value as it arrives: a string, or \<open>undefined\<close> when a tool call carries
  none. The update of \<open>activeExercises\<close> replaces the entry at the snapshot's index when the
  list has one (\<open>if (updated[currentIdx])\<close>). In the notification part the exercise is read
  from the snapshot's list; when that read is \<open>undefined\<close> the adjustment has no exercise to
  work on, which is taken as a \<open>TypeError\<close>, thrown after the state update was queued.
\<close>

definition handleDifficultyChange ::
  "(Exercise \<Rightarrow> string option \<Rightarrow> Exercise) \<Rightarrow> Render \<Rightarrow> string option \<Rightarrow> App \<Rightarrow> App outcome" where
  "handleDifficultyChange adjustExerciseByDifficulty r newDifficulty app =
     (let currentIdx = r_currentExerciseIndex r;
          prev = activeExercises app;
          updated = (case js_index prev currentIdx of
                       None \<Rightarrow> prev
                     | Some ex \<Rightarrow> prev[nat currentIdx := adjustExerciseByDifficulty ex newDifficulty]);
          app1 = app\<lparr>activeExercises := updated\<rparr>
      in case sessionRef app1 of
           None \<Rightarrow> Done app1
         | Some h \<Rightarrow>
             (case js_index (r_activeExercises r) currentIdx of
                None \<Rightarrow> Threw TypeError app1
              | Some currentEx \<Rightarrow>
                  (let updatedEx = adjustExerciseByDifficulty currentEx newDifficulty
                   in Done (app1\<lparr>realtimeInputs := realtimeInputs app1 @
                              [(newDifficulty, targetReps updatedEx, targetSets updatedEx)]\<rparr>))))"

subsection \<open>Tool calls of an inbound message (onmessage)\<close>

text \<open>
  The loop over \<open>msg.toolCall.functionCalls\<close>. A call whose name is not
  \<open>updateWorkoutState\<close> is skipped. For a call with that name,
  \<open>const { action, value } = fc.args\<close> throws a \<open>TypeError\<close> when the call has no arguments.
  A throw, of the destructuring or of a handler, ends the loop and the rest of the message: the
  call is not answered, and neither are the calls after it.
\<close>

definition functionResponse :: "FunctionCall \<Rightarrow> FunctionResponse" where
  "functionResponse fc = \<lparr>fr_id = fc_id fc, fr_name = fc_name fc, fr_result = ''ok''\<rparr>"

fun onmessage_toolCall ::
  "(Exercise \<Rightarrow> string option \<Rightarrow> Exercise) \<Rightarrow> Render \<Rightarrow> FunctionCall list \<Rightarrow> App \<Rightarrow> App outcome" where
  "onmessage_toolCall adj r [] app = Done app"
| "onmessage_toolCall adj r (fc # fcs) app =
     (if fc_name fc = ''updateWorkoutState'' then
        (case fc_args fc of
           None \<Rightarrow> Threw TypeError app
         | Some args \<Rightarrow>
             (case (if args ''action'' = Some ''set_difficulty''
                    then handleDifficultyChange adj r (args ''value'') app
                    else Done (dispatchTrainerAction r (args ''action'') app)) of
                Threw e app' \<Rightarrow> Threw e app'
              | Done app' \<Rightarrow>
                  onmessage_toolCall adj r fcs
                    (app'\<lparr>toolResponses := toolResponses app' @ [functionResponse fc]\<rparr>)))
      else onmessage_toolCall adj r fcs app)"


section \<open>Playback (onmessage, source.onended)\<close>

text \<open>
  The refs of the playback pipeline. A source node is known by a number; \<open>sourcesRef\<close> is a
  JavaScript \<open>Set\<close>, kept as a list without duplicates in insertion order, the order
  \<open>forEach\<close> visits. Times of the audio clock are \<open>real\<close>. \<open>stopCalls\<close> are the nodes on which
  \<open>stop()\<close> was called, \<open>finishedSignals\<close> counts the calls \<open>setIsModelSpeaking(false)\<close>.
\<close>

record Playback =
  sourcesRef :: "nat list"
  nextStartTimeRef :: real
  isModelSpeaking :: bool
  stopCalls :: "nat list"
  finishedSignals :: nat

text \<open>The values the refs start with: \<open>useRef(0)\<close>, \<open>useRef(new Set())\<close>, \<open>useState(false)\<close>.\<close>

definition initialPlayback :: Playback where
  "initialPlayback = \<lparr>sourcesRef = [], nextStartTimeRef = 0, isModelSpeaking = False,
                       stopCalls = [], finishedSignals = 0\<rparr>"

text \<open>
  An audio part arrives: the node \<open>source\<close> is scheduled at \<open>max nextStartTime currentTime\<close>
  and joins the set.
\<close>

definition scheduleAudio :: "nat \<Rightarrow> real \<Rightarrow> real \<Rightarrow> Playback \<Rightarrow> Playback" where
  "scheduleAudio source currentTime duration pb =
     pb\<lparr>isModelSpeaking := True,
        nextStartTimeRef := max (nextStartTimeRef pb) currentTime + duration,
        sourcesRef := (if source \<in> set (sourcesRef pb) then sourcesRef pb
                       else sourcesRef pb @ [source])\<rparr>"

text \<open>\<open>source.onended\<close>.\<close>

definition onended :: "nat \<Rightarrow> Playback \<Rightarrow> Playback" where
  "onended source pb =
     (let pb1 = pb\<lparr>sourcesRef := removeAll source (sourcesRef pb)\<rparr>
      in if length (sourcesRef pb1) = 0
         then pb1\<lparr>isModelSpeaking := False, finishedSignals := Suc (finishedSignals pb1)\<rparr>
         else pb1)"

text \<open>The handling of \<open>msg.serverContent.interrupted\<close>.\<close>

definition interrupted :: "Playback \<Rightarrow> Playback" where
  "interrupted pb =
     pb\<lparr>stopCalls := stopCalls pb @ sourcesRef pb,
        sourcesRef := [],
        nextStartTimeRef := 0,
        isModelSpeaking := False,
        finishedSignals := Suc (finishedSignals pb)\<rparr>"

section \<open>Traces and concrete inputs\<close>

text \<open>A two-exercise plan and a state inside it, used by the concrete instances below.\<close>

definition squat :: Exercise where
  "squat = \<lparr>ex_id = ''squat'', ex_name = ''Squat'', muscleGroup = ''Legs'', description = '''',
            targetReps = 10, targetSets = 2, restSeconds = 60, difficulty = None\<rparr>"

definition plank :: Exercise where
  "plank = \<lparr>ex_id = ''plank'', ex_name = ''Plank'', muscleGroup = ''Core'', description = '''',
            targetReps = 1, targetSets = 1, restSeconds = 30, difficulty = None\<rparr>"

definition firstSet :: WorkoutState where
  "firstSet = \<lparr>isActive = True, currentExerciseIndex = 0, currentSet = 1, timer = 0,
               isResting = False\<rparr>"

text \<open>
  The invariant of the workout state against an exercise list: an active state has its index
  inside the list, a resting state has a timer that is not negative, and a state whose timer
  is 0 is not resting.
\<close>

definition WorkoutState_inv :: "Exercise list \<Rightarrow> WorkoutState \<Rightarrow> bool" where
  "WorkoutState_inv exs s \<longleftrightarrow>
     (isActive s \<longrightarrow> 0 \<le> currentExerciseIndex s \<and> currentExerciseIndex s < int (length exs)) \<and>
     (isResting s \<longrightarrow> 0 \<le> timer s) \<and>
     (timer s = 0 \<longrightarrow> \<not> isResting s)"

text \<open>
  At most one timer is live, and it is the one \<open>timerIntervalRef\<close> holds. Every timer is made
  by \<open>startRestTimer\<close>, so this holds from the start of the component on.
\<close>

definition timer_ok :: "App \<Rightarrow> bool" where
  "timer_ok app \<longleftrightarrow>
     (case intervals app of
        [] \<Rightarrow> True
      | x # xs \<Rightarrow> xs = [] \<and> timerIntervalRef app = Some (fst x))"


text \<open>The trigger gets as far as building its history record.\<close>

definition recordBuilt :: "Exercise list \<times> string \<times> string \<Rightarrow> bool" where
  "recordBuilt t = (case sessionExercises (fst t) of Inl e \<Rightarrow> False | Inr logs \<Rightarrow> True)"

text \<open>
  An interruption together with what follows from it: \<open>stop()\<close> ends a node, and the browser
  delivers \<open>ended\<close> to every node the interruption stopped, in the order of the stops. No new
  audio is scheduled in between.
\<close>

definition interruptedThenEnded :: "Playback \<Rightarrow> Playback" where
  "interruptedThenEnded pb = fold onended (sourcesRef pb) (interrupted pb)"

text \<open>Two segments scheduled and not yet finished.\<close>

definition twoPending :: Playback where
  "twoPending = scheduleAudio 2 0 1 (scheduleAudio 1 0 1 initialPlayback)"



text \<open>A value for the parameter \<open>adjustExerciseByDifficulty\<close> in the concrete instances.\<close>

definition sampleAdjust :: "Exercise \<Rightarrow> string option \<Rightarrow> Exercise" where
  "sampleAdjust ex d =
     (if d = Some ''Challenging''
      then ex\<lparr>targetReps := targetReps ex + 2, difficulty := Some HARD\<rparr>
      else ex)"

definition lastSet :: WorkoutState where
  "lastSet = \<lparr>isActive = True, currentExerciseIndex = 1, currentSet = 1, timer = 0,
              isResting = False\<rparr>"

text \<open>
  A running workout on that plan, with an open session (handle 1), and the render snapshot
  that agrees with it.
\<close>

definition workoutApp :: App where
  "workoutApp = \<lparr>isWorkoutActive = True, workoutState = firstSet, activeExercises = [squat, plank],
                  history = [], sessionRef = Some 1, timerIntervalRef = None, intervals = [],
                  nextIntervalId = 1, pendingStops = [], closeCalls = [], toolResponses = [],
                  realtimeInputs = [], renderError = None\<rparr>"

definition workoutRender :: Render where
  "workoutRender = \<lparr>r_activeExercises = [squat, plank], r_currentExerciseIndex = 0\<rparr>"


text \<open>The same plan with no rest after a set of squats.\<close>

definition noRest :: "Exercise list" where
  "noRest = [squat\<lparr>restSeconds := 0\<rparr>, plank]"

definition noRestRender :: Render where
  "noRestRender = \<lparr>r_activeExercises = noRest, r_currentExerciseIndex = 0\<rparr>"

text \<open>The workout in the last second of the rest before the second set of squats.\<close>

definition restingApp :: App where
  "restingApp = workoutApp\<lparr>workoutState := firstSet\<lparr>currentSet := 2, timer := 1, isResting := True\<rparr>,
                            timerIntervalRef := Some 1, intervals := [(1, 1)], nextIntervalId := 2\<rparr>"

section \<open>Properties of the state machine\<close>

lemma js_index_Some_iff:
  "(\<exists>x. js_index xs i = Some x) \<longleftrightarrow> (0 \<le> i \<and> i < int (length xs))"
  by (simp add: js_index_def)

lemma js_index_None_iff:
  "js_index xs i = None \<longleftrightarrow> \<not> (0 \<le> i \<and> i < int (length xs))"
  by (simp add: js_index_def)

text \<open>
  C3. With a current exercise \<open>ex\<close>: when \<open>currentSet < targetSets ex\<close>, \<open>finish_set\<close> adds
  exactly 1 to \<open>currentSet\<close>, sets \<open>isResting\<close>, sets \<open>timer\<close> to \<open>restSeconds ex\<close> and leaves
  \<open>currentExerciseIndex\<close> as it is; when \<open>currentSet = targetSets ex\<close> and the index is below
  \<open>length exercises - 1\<close>, it sets \<open>currentSet\<close> to 1, clears \<open>isResting\<close>, zeroes \<open>timer\<close> and
  adds exactly 1 to \<open>currentExerciseIndex\<close>.
\<close>

theorem C3_finish_set_rest_and_advance:
  assumes "js_index exs (currentExerciseIndex s) = Some ex"
  shows "(currentSet s < targetSets ex \<longrightarrow>
            (\<exists>s' effs. handleTrainerAction exs (Some ''finish_set'') s = Inr (s', effs) \<and>
               currentSet s' = currentSet s + 1 \<and> isResting s' \<and>
               timer s' = restSeconds ex \<and>
               currentExerciseIndex s' = currentExerciseIndex s)) \<and>
         (currentSet s = targetSets ex \<and> currentExerciseIndex s < int (length exs) - 1 \<longrightarrow>
            (\<exists>s' effs. handleTrainerAction exs (Some ''finish_set'') s = Inr (s', effs) \<and>
               currentSet s' = 1 \<and> \<not> isResting s' \<and> timer s' = 0 \<and>
               currentExerciseIndex s' = currentExerciseIndex s + 1))"
  using assms by (simp add: handleTrainerAction_def)

theorem C3_witness:
  "(\<exists>s' effs. handleTrainerAction [squat, plank] (Some ''finish_set'') firstSet = Inr (s', effs) \<and>
      currentSet s' = 2 \<and> isResting s' \<and> timer s' = 60 \<and> currentExerciseIndex s' = 0) \<and>
   (\<exists>s' effs. handleTrainerAction [squat, plank] (Some ''finish_set'')
        (firstSet\<lparr>currentSet := 2\<rparr>) = Inr (s', effs) \<and>
      currentSet s' = 1 \<and> \<not> isResting s' \<and> timer s' = 0 \<and> currentExerciseIndex s' = 1)"
proof -
  have a: "js_index [squat, plank] (currentExerciseIndex firstSet) = Some squat"
    by (simp add: js_index_def firstSet_def)
  have b: "js_index [squat, plank] (currentExerciseIndex (firstSet\<lparr>currentSet := 2\<rparr>)) = Some squat"
    by (simp add: js_index_def firstSet_def)
  from C3_finish_set_rest_and_advance [OF a] C3_finish_set_rest_and_advance [OF b]
  show ?thesis by (simp add: firstSet_def squat_def)
qed

text \<open>
  C10. \<open>finish_set\<close> reads \<open>targetSets\<close> of \<open>activeExercises[currentExerciseIndex]\<close> with no
  bounds guard: when \<open>0 \<le> currentExerciseIndex < length activeExercises\<close> the lookup is
  defined and the handler returns a state; on an empty list or any other index the lookup
  yields no exercise and the handler faults with a \<open>TypeError\<close>.
\<close>

theorem C10_finish_set_defined_iff_in_range:
  "(0 \<le> currentExerciseIndex s \<and> currentExerciseIndex s < int (length exs) \<longrightarrow>
      (\<exists>ex. js_index exs (currentExerciseIndex s) = Some ex) \<and>
      (\<exists>r. handleTrainerAction exs (Some ''finish_set'') s = Inr r)) \<and>
   (\<not> (0 \<le> currentExerciseIndex s \<and> currentExerciseIndex s < int (length exs)) \<longrightarrow>
      js_index exs (currentExerciseIndex s) = None \<and>
      handleTrainerAction exs (Some ''finish_set'') s = Inl TypeError) \<and>
   handleTrainerAction [] (Some ''finish_set'') s = Inl TypeError"
  by (simp add: handleTrainerAction_def js_index_def Let_def)

theorem C10_witness:
  "(\<exists>r. handleTrainerAction [squat, plank] (Some ''finish_set'') firstSet = Inr r) \<and>
   handleTrainerAction [squat, plank] (Some ''finish_set'')
     (firstSet\<lparr>currentExerciseIndex := 2\<rparr>) = Inl TypeError \<and>
   handleTrainerAction [squat, plank] (Some ''finish_set'')
     (firstSet\<lparr>currentExerciseIndex := - 1\<rparr>) = Inl TypeError \<and>
   handleTrainerAction [] (Some ''finish_set'') firstSet = Inl TypeError"
  using C10_finish_set_defined_iff_in_range [of firstSet "[squat, plank]"]
    C10_finish_set_defined_iff_in_range [of "firstSet\<lparr>currentExerciseIndex := 2\<rparr>" "[squat, plank]"]
    C10_finish_set_defined_iff_in_range [of "firstSet\<lparr>currentExerciseIndex := - 1\<rparr>" "[squat, plank]"]
    C10_finish_set_defined_iff_in_range [of firstSet "[]"]
  by (simp add: firstSet_def)

lemma not_finish_set_unapplied:
  "a \<noteq> Some ''finish_set'' \<Longrightarrow> handleTrainerAction exs a s = Inr (s, [])"
  by (simp add: handleTrainerAction_def)

text \<open>
  C9. The action \<open>next_exercise\<close>, which the tool declaration offers, is answered with
  \<open>ok\<close> and leaves the workout state as it was; \<open>finish_set\<close> in the same state moves to the
  second set.
\<close>

theorem C9_next_exercise_leaves_state:
  "handleTrainerAction [squat, plank] (Some ''next_exercise'') firstSet = Inr (firstSet, []) \<and>
   handleTrainerAction [squat, plank] (Some ''finish_set'') firstSet =
     Inr (firstSet\<lparr>currentSet := 2, timer := 60, isResting := True\<rparr>, [StartRestTimer 60]) \<and>
   onmessage_toolCall adj workoutRender
     [\<lparr>fc_id = ''call-1'', fc_name = ''updateWorkoutState'',
       fc_args = Some [''action'' \<mapsto> ''next_exercise'']\<rparr>] workoutApp =
     Done (workoutApp\<lparr>toolResponses :=
             [\<lparr>fr_id = ''call-1'', fr_name = ''updateWorkoutState'', fr_result = ''ok''\<rparr>]\<rparr>)"
  by (simp add: handleTrainerAction_def js_index_def firstSet_def squat_def plank_def
      dispatchTrainerAction_def workoutApp_def workoutRender_def functionResponse_def)

section \<open>Completion\<close>

text \<open>
  C1 as the code has it. On the last set of the last exercise, \<open>finish_set\<close> sets \<open>isActive\<close>
  to \<open>False\<close> and schedules \<open>stopWorkout\<close> once, changing nothing else. The handler does not
  look at \<open>isActive\<close>: a further \<open>finish_set\<close> leaves the workout state as it is and schedules
  \<open>stopWorkout\<close> once more.
\<close>

theorem C1_last_finish_set:
  assumes "js_index (r_activeExercises r) (currentExerciseIndex (workoutState app)) = Some ex"
    and "targetSets ex \<le> currentSet (workoutState app)"
    and "int (length (r_activeExercises r)) - 1 \<le> currentExerciseIndex (workoutState app)"
  shows "(let app1 = dispatchTrainerAction r (Some ''finish_set'') app;
              app2 = dispatchTrainerAction r (Some ''finish_set'') app1
          in handleTrainerAction (r_activeExercises r) (Some ''finish_set'') (workoutState app) =
               Inr ((workoutState app)\<lparr>isActive := False\<rparr>, [ScheduleStop]) \<and>
             app1 = app\<lparr>pendingStops := pendingStops app @ [r_activeExercises r],
                        workoutState := (workoutState app)\<lparr>isActive := False\<rparr>\<rparr> \<and>
             workoutState app2 = workoutState app1 \<and>
             app2 = app1\<lparr>pendingStops := pendingStops app1 @ [r_activeExercises r]\<rparr>)"
  using assms
  by (simp add: Let_def dispatchTrainerAction_def handleTrainerAction_def)

theorem C1_witness:
  "dispatchTrainerAction workoutRender (Some ''finish_set'') (workoutApp\<lparr>workoutState := lastSet\<rparr>) =
     workoutApp\<lparr>pendingStops := [[squat, plank]], workoutState := lastSet\<lparr>isActive := False\<rparr>\<rparr> \<and>
   dispatchTrainerAction workoutRender (Some ''finish_set'')
     (dispatchTrainerAction workoutRender (Some ''finish_set'')
        (workoutApp\<lparr>workoutState := lastSet\<rparr>)) =
     workoutApp\<lparr>pendingStops := [[squat, plank], [squat, plank]],
                 workoutState := lastSet\<lparr>isActive := False\<rparr>\<rparr>"
proof -
  have a: "js_index (r_activeExercises workoutRender)
             (currentExerciseIndex (workoutState (workoutApp\<lparr>workoutState := lastSet\<rparr>))) = Some plank"
    by (simp add: js_index_def workoutRender_def lastSet_def)
  have b: "targetSets plank \<le> currentSet (workoutState (workoutApp\<lparr>workoutState := lastSet\<rparr>))"
    by (simp add: plank_def lastSet_def)
  have c: "int (length (r_activeExercises workoutRender)) - 1
             \<le> currentExerciseIndex (workoutState (workoutApp\<lparr>workoutState := lastSet\<rparr>))"
    by (simp add: workoutRender_def lastSet_def)
  let ?app = "workoutApp\<lparr>workoutState := lastSet\<rparr>"
  let ?app1 = "dispatchTrainerAction workoutRender (Some ''finish_set'') ?app"
  note step = C1_last_finish_set [OF a b c, unfolded Let_def]
  have 1: "?app1 = ?app\<lparr>pendingStops := pendingStops ?app @ [r_activeExercises workoutRender],
                        workoutState := (workoutState ?app)\<lparr>isActive := False\<rparr>\<rparr>"
    and 2: "dispatchTrainerAction workoutRender (Some ''finish_set'') ?app1 =
              ?app1\<lparr>pendingStops := pendingStops ?app1 @ [r_activeExercises workoutRender]\<rparr>"
    using step by blast+
  show ?thesis
    unfolding 2 unfolding 1 by (simp add: workoutRender_def workoutApp_def)
qed

text \<open>
  The claim as written fails: after completion, a second \<open>finish_set\<close> adds a second pending
  \<open>stopWorkout\<close>.
\<close>

theorem C1_counterexample:
  "\<not> (pendingStops (dispatchTrainerAction workoutRender (Some ''finish_set'')
          (dispatchTrainerAction workoutRender (Some ''finish_set'')
             (workoutApp\<lparr>workoutState := lastSet\<rparr>))) =
       pendingStops (dispatchTrainerAction workoutRender (Some ''finish_set'')
             (workoutApp\<lparr>workoutState := lastSet\<rparr>)))"
  by (simp add: dispatchTrainerAction_def handleTrainerAction_def js_index_def workoutApp_def
      workoutRender_def lastSet_def squat_def plank_def)


section \<open>Teardown\<close>

lemma sessionExercises_Inr_iff:
  "(\<exists>logs. sessionExercises exs = Inr logs) \<longleftrightarrow>
     (\<forall>ex \<in> set exs. 0 \<le> targetSets ex \<and> targetSets ex < 2 ^ 32)"
  by (induction exs) (auto simp: js_Array_fill_def split: sum.splits)

lemma recordBuilt_iff:
  "recordBuilt (exs, i, d) \<longleftrightarrow> (\<forall>ex \<in> set exs. 0 \<le> targetSets ex \<and> targetSets ex < 2 ^ 32)"
  using sessionExercises_Inr_iff [of exs]
  by (auto simp: recordBuilt_def split: sum.splits)






section \<open>Tool calls\<close>

lemma startRestTimer_frame:
  "toolResponses (startRestTimer n app) = toolResponses app"
  "sessionRef (startRestTimer n app) = sessionRef app"
  "workoutState (startRestTimer n app) = workoutState app"
  "activeExercises (startRestTimer n app) = activeExercises app"
  by (simp_all add: startRestTimer_def Let_def clearInterval_def split: option.splits)












text \<open>
  A call named \<open>updateWorkoutState\<close> that arrives without arguments is not answered either,
  and it takes the calls after it along.
\<close>

lemma call_without_args_unanswered:
  "onmessage_toolCall sampleAdjust workoutRender
     [\<lparr>fc_id = ''c1'', fc_name = ''updateWorkoutState'', fc_args = None\<rparr>,
      \<lparr>fc_id = ''c2'', fc_name = ''updateWorkoutState'',
        fc_args = Some [''action'' \<mapsto> ''finish_set'']\<rparr>] workoutApp =
   Threw TypeError workoutApp"
  by simp

section \<open>Playback interruption\<close>

lemma onended_on_empty:
  "sourcesRef pb = [] \<Longrightarrow>
     onended source pb = pb\<lparr>isModelSpeaking := False, finishedSignals := Suc (finishedSignals pb)\<rparr>"
  by (simp add: onended_def)

lemma ended_events_on_empty:
  "sourcesRef pb = [] \<Longrightarrow> isModelSpeaking pb = False \<Longrightarrow>
     fold onended xs pb = pb\<lparr>finishedSignals := finishedSignals pb + length xs\<rparr>"
proof (induction xs arbitrary: pb)
  case Nil
  then show ?case by simp
next
  case (Cons x xs)
  let ?pb = "pb\<lparr>isModelSpeaking := False, finishedSignals := Suc (finishedSignals pb)\<rparr>"
  have "fold onended xs ?pb = ?pb\<lparr>finishedSignals := finishedSignals ?pb + length xs\<rparr>"
    by (rule Cons.IH) (simp_all add: Cons.prems)
  then show ?case
    using Cons.prems by (simp add: onended_on_empty)
qed

text \<open>
  C7 as the code has it. Whatever the list of tracked segments is (none, one or many), the
  handling of an interruption calls \<open>stop()\<close> on every tracked segment, empties the tracked
  set, puts \<open>nextStartTime\<close> back to the value it starts with, and itself signals "agent
  finished speaking" once. Handling a second interruption stops nothing more and changes none
  of the refs; it signals once again, and the same holds when nothing was ever scheduled.
  Every \<open>ended\<close> event that arrives after the interruption, while the set is still empty,
  signals once more: an interruption of \<open>k\<close> pending segments followed by their \<open>ended\<close>
  events signals \<open>1 + k\<close> times, each time with the value \<open>false\<close>, and leaves the refs as the
  handler left them.
\<close>

theorem C7_interruption_resets_playback:
  "sourcesRef (interrupted pb) = [] \<and>
   stopCalls (interrupted pb) = stopCalls pb @ sourcesRef pb \<and>
   nextStartTimeRef (interrupted pb) = nextStartTimeRef initialPlayback \<and>
   isModelSpeaking (interrupted pb) = False \<and>
   finishedSignals (interrupted pb) = finishedSignals pb + 1 \<and>
   interrupted (interrupted pb) = (interrupted pb)\<lparr>finishedSignals := finishedSignals pb + 2\<rparr> \<and>
   interrupted initialPlayback = initialPlayback\<lparr>finishedSignals := 1\<rparr> \<and>
   fold onended xs (interrupted pb) =
     (interrupted pb)\<lparr>finishedSignals := finishedSignals pb + 1 + length xs\<rparr> \<and>
   interruptedThenEnded pb =
     (interrupted pb)\<lparr>finishedSignals := finishedSignals pb + 1 + length (sourcesRef pb)\<rparr>"
proof -
  have e: "sourcesRef (interrupted pb) = []" and s: "isModelSpeaking (interrupted pb) = False"
    and f: "finishedSignals (interrupted pb) = finishedSignals pb + 1"
    by (simp_all add: interrupted_def)
  have ended: "fold onended ys (interrupted pb) =
      (interrupted pb)\<lparr>finishedSignals := finishedSignals pb + 1 + length ys\<rparr>" for ys
    by (simp add: ended_events_on_empty [OF e s] f)
  show ?thesis
    unfolding interruptedThenEnded_def ended
    by (simp add: interrupted_def initialPlayback_def)
qed

text \<open>
  The claim as written fails: with two segments pending, the interruption and the two
  \<open>ended\<close> events of the stopped segments signal three times, not once.
\<close>

theorem C7_counterexample:
  "\<not> (finishedSignals (interruptedThenEnded twoPending) = finishedSignals twoPending + 1) \<and>
   sourcesRef twoPending = [1, 2] \<and>
   finishedSignals (interrupted twoPending) = 1 \<and>
   finishedSignals (interruptedThenEnded twoPending) = 3"
  by (simp add: interruptedThenEnded_def interrupted_def onended_def twoPending_def
      scheduleAudio_def initialPlayback_def)

section \<open>Difficulty change\<close>

lemma js_index_update:
  "0 \<le> i \<Longrightarrow> js_index (xs[nat i := x]) j =
     (if j = i \<and> i < int (length xs) then Some x else js_index xs j)"
  by (auto simp: js_index_def nth_list_update)

lemma handleDifficultyChange_exercises:
  "activeExercises (state_of (handleDifficultyChange adj r d app)) =
     (case js_index (activeExercises app) (r_currentExerciseIndex r) of
        None \<Rightarrow> activeExercises app
      | Some ex \<Rightarrow> (activeExercises app)[nat (r_currentExerciseIndex r) := adj ex d])"
  by (simp add: handleDifficultyChange_def Let_def split: option.splits)

lemma handleDifficultyChange_counters:
  "workoutState (state_of (handleDifficultyChange adj r d app)) = workoutState app"
  "isWorkoutActive (state_of (handleDifficultyChange adj r d app)) = isWorkoutActive app"
  by (simp_all add: handleDifficultyChange_def Let_def split: option.splits)

text \<open>
  What a difficulty change does for any snapshot: the workout state and the length of the
  list stay, every entry other than the one at the snapshot's index stays, and that entry,
  when the list has one, becomes the adjustment of the exercise that was there.
\<close>

lemma difficulty_change_frame:
  "(let i = r_currentExerciseIndex r;
        app' = state_of (handleDifficultyChange adj r d app)
    in workoutState app' = workoutState app \<and>
       length (activeExercises app') = length (activeExercises app) \<and>
       (\<forall>j. j \<noteq> i \<longrightarrow> js_index (activeExercises app') j = js_index (activeExercises app) j) \<and>
       (\<forall>ex. js_index (activeExercises app) i = Some ex \<longrightarrow>
             js_index (activeExercises app') i = Some (adj ex d)) \<and>
       (js_index (activeExercises app) i = None \<longrightarrow>
             activeExercises app' = activeExercises app))"
  by (auto simp: Let_def handleDifficultyChange_exercises handleDifficultyChange_counters
      js_index_update js_index_def split: option.splits)

text \<open>
  C8. The workout is at its second exercise (index 1) and the agent calls \<open>set_difficulty\<close>.
  The handler wired into \<open>onmessage\<close> is the one of the start render, whose index is 0: it
  replaces the squat at index 0 and leaves the plank, the current exercise, as it is; the
  workout state is unchanged. The same change through a handler whose snapshot is current,
  as the one passed to the view is, replaces the plank and leaves the squat.
\<close>

theorem C8_stale_index_on_tool_call:
  "activeExercises (state_of (onmessage_toolCall sampleAdjust workoutRender
       [\<lparr>fc_id = ''call-1'', fc_name = ''updateWorkoutState'',
          fc_args = Some [''action'' \<mapsto> ''set_difficulty'', ''value'' \<mapsto> ''Challenging'']\<rparr>]
       (workoutApp\<lparr>workoutState := lastSet\<rparr>))) =
     [squat\<lparr>targetReps := 12, difficulty := Some HARD\<rparr>, plank] \<and>
   workoutState (state_of (onmessage_toolCall sampleAdjust workoutRender
       [\<lparr>fc_id = ''call-1'', fc_name = ''updateWorkoutState'',
          fc_args = Some [''action'' \<mapsto> ''set_difficulty'', ''value'' \<mapsto> ''Challenging'']\<rparr>]
       (workoutApp\<lparr>workoutState := lastSet\<rparr>))) = lastSet \<and>
   currentExerciseIndex lastSet = 1 \<and>
   activeExercises (state_of (handleDifficultyChange sampleAdjust
       \<lparr>r_activeExercises = [squat, plank], r_currentExerciseIndex = 1\<rparr> (Some ''Challenging'')
       (workoutApp\<lparr>workoutState := lastSet\<rparr>))) =
     [squat, plank\<lparr>targetReps := 3, difficulty := Some HARD\<rparr>]"
  by (simp add: handleDifficultyChange_def js_index_def Let_def workoutRender_def workoutApp_def
      lastSet_def sampleAdjust_def squat_def plank_def)

section \<open>Rest timer\<close>

lemma second_empty: "intervals app = [] \<Longrightarrow> second app = app"
  by (simp add: second_def)

lemma second_single:
  assumes "intervals app = [(t, r)]" and "timerIntervalRef app = Some t"
  shows "second app =
           (if r - 1 \<le> 0
            then app\<lparr>intervals := [],
                     workoutState := (workoutState app)\<lparr>timer := r - 1, isResting := False\<rparr>\<rparr>
            else app\<lparr>intervals := [(t, r - 1)],
                     workoutState := (workoutState app)\<lparr>timer := r - 1\<rparr>\<rparr>)"
  using assms by (simp add: second_def tick_def Let_def clearInterval_def)

lemma timer_ok_cases:
  "timer_ok app \<longleftrightarrow>
     intervals app = [] \<or> (\<exists>t r. intervals app = [(t, r)] \<and> timerIntervalRef app = Some t)"
  by (auto simp: timer_ok_def split: list.splits)

lemma timer_ok_second:
  assumes "timer_ok app"
  shows "timer_ok (second app)"
proof (cases "intervals app = []")
  case True
  with assms show ?thesis by (simp add: second_empty)
next
  case False
  with assms obtain t r where iv: "intervals app = [(t, r)]" and rf: "timerIntervalRef app = Some t"
    by (auto simp: timer_ok_cases)
  show ?thesis
    by (simp add: second_single [OF iv rf] timer_ok_def rf)
qed

lemma timer_ok_seconds: "timer_ok app \<Longrightarrow> timer_ok ((second ^^ k) app)"
  by (induction k) (simp_all add: timer_ok_second)

lemma startRestTimer_single:
  assumes "timer_ok app"
  shows "intervals (startRestTimer n app) = [(nextIntervalId app, n)]"
    and "timerIntervalRef (startRestTimer n app) = Some (nextIntervalId app)"
  using assms
  by (auto simp: timer_ok_cases startRestTimer_def Let_def clearInterval_def split: option.splits)

lemma timer_ok_startRestTimer: "timer_ok app \<Longrightarrow> timer_ok (startRestTimer n app)"
  by (simp add: timer_ok_cases startRestTimer_single)

lemma countdown:
  assumes "intervals app = [(t, int k + m)]" and "timerIntervalRef app = Some t" and "1 \<le> m"
  shows "intervals ((second ^^ k) app) = [(t, m)] \<and>
         timerIntervalRef ((second ^^ k) app) = Some t \<and>
         isResting (workoutState ((second ^^ k) app)) = isResting (workoutState app) \<and>
         (0 < k \<longrightarrow> timer (workoutState ((second ^^ k) app)) = m)"
  using assms
proof (induction k arbitrary: m)
  case 0
  then show ?case by simp
next
  case (Suc k)
  have "intervals app = [(t, int k + (m + 1))]" using Suc.prems by simp
  from Suc.IH [OF this Suc.prems(2)] Suc.prems(3)
  have iv: "intervals ((second ^^ k) app) = [(t, m + 1)]"
    and rf: "timerIntervalRef ((second ^^ k) app) = Some t"
    and rs: "isResting (workoutState ((second ^^ k) app)) = isResting (workoutState app)"
    by simp_all
  show ?case
    using Suc.prems(3) rs rf by (simp add: second_single [OF iv rf])
qed

lemma countdown_end:
  assumes "intervals app = [(t, N)]" and "timerIntervalRef app = Some t" and "1 \<le> N"
  shows "intervals ((second ^^ nat N) app) = [] \<and>
         timer (workoutState ((second ^^ nat N) app)) = 0 \<and>
         isResting (workoutState ((second ^^ nat N) app)) = False"
proof -
  obtain k where k: "nat N = Suc k" using assms(3) by (cases "nat N") auto
  then have "intervals app = [(t, int k + 1)]" using assms(1,3) by simp
  from countdown [OF this assms(2)]
  have iv: "intervals ((second ^^ k) app) = [(t, 1)]"
    and rf: "timerIntervalRef ((second ^^ k) app) = Some t"
    by simp_all
  show ?thesis
    by (simp add: k second_single [OF iv rf])
qed

lemma countdown_before:
  assumes "intervals app = [(t, N)]" and "timerIntervalRef app = Some t"
    and "0 < k" and "k < nat N"
  shows "timer (workoutState ((second ^^ k) app)) = N - int k \<and>
         isResting (workoutState ((second ^^ k) app)) = isResting (workoutState app) \<and>
         intervals ((second ^^ k) app) = [(t, N - int k)]"
proof -
  have "intervals app = [(t, int k + (N - int k))]" using assms(1) by simp
  from countdown [OF this assms(2)] assms(3,4) show ?thesis by simp
qed

text \<open>
  C6 as the code has it. Let at most one timer be live, the one the ref holds, and let
  \<open>N \<ge> 1\<close>. Starting a rest timer with \<open>N\<close> seconds removes the live timer and leaves the new
  one as the only timer. After \<open>k\<close> seconds, \<open>0 < k < N\<close>, the timer field is \<open>N - k\<close> and
  \<open>isResting\<close> is what it was; after exactly \<open>N\<close> seconds the timer field is 0, \<open>isResting\<close> is
  false and no timer is live. At every moment at most one timer is live, so that a second
  decrements at most once, and a restart at any moment leaves one timer.
\<close>

theorem C6_rest_timer_countdown:
  assumes "timer_ok app" and "1 \<le> N"
  shows "(let app0 = startRestTimer N app
          in intervals app0 = [(nextIntervalId app, N)] \<and>
             workoutState app0 = workoutState app \<and>
             (\<forall>k. 0 < k \<and> k < nat N \<longrightarrow>
                timer (workoutState ((second ^^ k) app0)) = N - int k \<and>
                isResting (workoutState ((second ^^ k) app0)) = isResting (workoutState app)) \<and>
             timer (workoutState ((second ^^ nat N) app0)) = 0 \<and>
             isResting (workoutState ((second ^^ nat N) app0)) = False \<and>
             intervals ((second ^^ nat N) app0) = [] \<and>
             (\<forall>k. timer_ok ((second ^^ k) app0) \<and> length (intervals ((second ^^ k) app0)) \<le> 1) \<and>
             (\<forall>k M. length (intervals (startRestTimer M ((second ^^ k) app0))) = 1))"
proof -
  let ?app0 = "startRestTimer N app"
  note iv = startRestTimer_single(1) [OF assms(1), of N]
  note rf = startRestTimer_single(2) [OF assms(1), of N]
  have ok: "timer_ok ((second ^^ k) ?app0)" for k
    by (rule timer_ok_seconds) (rule timer_ok_startRestTimer [OF assms(1)])
  have le: "length (intervals ((second ^^ k) ?app0)) \<le> 1" for k
    using ok [of k] by (auto simp: timer_ok_cases)
  have re: "length (intervals (startRestTimer M ((second ^^ k) ?app0))) = 1" for k M
    by (simp add: startRestTimer_single(1) [OF ok])
  have ws: "workoutState ?app0 = workoutState app"
    by (simp add: startRestTimer_frame)
  show ?thesis
    unfolding Let_def
    using iv ws countdown_before [OF iv rf] countdown_end [OF iv rf assms(2)] ok le re
    by simp
qed

theorem C6_witness:
  "intervals (startRestTimer 3 (startRestTimer 60 workoutApp)) = [(2, 3)] \<and>
   timer (workoutState ((second ^^ 2) (startRestTimer 3 (startRestTimer 60 workoutApp)))) = 1 \<and>
   timer (workoutState ((second ^^ 3) (startRestTimer 3 (startRestTimer 60 workoutApp)))) = 0 \<and>
   isResting (workoutState ((second ^^ 3) (startRestTimer 3 (startRestTimer 60 workoutApp)))) = False \<and>
   intervals ((second ^^ 3) (startRestTimer 3 (startRestTimer 60 workoutApp))) = []"
proof -
  have a: "timer_ok (startRestTimer 60 workoutApp)"
    by (simp add: timer_ok_def startRestTimer_def workoutApp_def Let_def)
  have b: "(1::int) \<le> 3" by simp
  have n: "nextIntervalId (startRestTimer 60 workoutApp) = 2"
    by (simp add: startRestTimer_def workoutApp_def Let_def)
  note step = C6_rest_timer_countdown [OF a b, unfolded Let_def]
  from step have 1: "intervals (startRestTimer 3 (startRestTimer 60 workoutApp)) = [(2, 3)]"
    by (simp add: n)
  from step have "0 < (2::nat) \<and> 2 < nat 3 \<longrightarrow>
      timer (workoutState ((second ^^ 2) (startRestTimer 3 (startRestTimer 60 workoutApp)))) = 3 - int 2"
    by blast
  then have 2: "timer (workoutState ((second ^^ 2) (startRestTimer 3 (startRestTimer 60 workoutApp)))) = 1"
    by simp
  from step have 3:
    "timer (workoutState ((second ^^ 3) (startRestTimer 3 (startRestTimer 60 workoutApp)))) = 0"
    "isResting (workoutState ((second ^^ 3) (startRestTimer 3 (startRestTimer 60 workoutApp)))) = False"
    "intervals ((second ^^ 3) (startRestTimer 3 (startRestTimer 60 workoutApp))) = []"
    by simp_all
  from 1 2 3 show ?thesis by simp
qed


text \<open>
  The claim as written fails for \<open>N = 0\<close>: \<open>finish_set\<close> on an exercise with no rest leaves
  \<open>isResting\<close> set with the timer at 0, after 0 ticks the state is still resting, and the one
  tick that follows puts the timer at \<open>-1\<close> and ends the countdown.
\<close>

theorem C6_counterexample:
  "\<not> (timer (workoutState ((second ^^ 0)
           (dispatchTrainerAction noRestRender (Some ''finish_set'')
              (workoutApp\<lparr>activeExercises := noRest\<rparr>)))) = 0 \<and>
       isResting (workoutState ((second ^^ 0)
           (dispatchTrainerAction noRestRender (Some ''finish_set'')
              (workoutApp\<lparr>activeExercises := noRest\<rparr>)))) = False) \<and>
   intervals (dispatchTrainerAction noRestRender (Some ''finish_set'')
      (workoutApp\<lparr>activeExercises := noRest\<rparr>)) = [(1, 0)] \<and>
   timer (workoutState (second
      (dispatchTrainerAction noRestRender (Some ''finish_set'')
         (workoutApp\<lparr>activeExercises := noRest\<rparr>)))) = - 1 \<and>
   intervals (second
      (dispatchTrainerAction noRestRender (Some ''finish_set'')
         (workoutApp\<lparr>activeExercises := noRest\<rparr>))) = []"
  by (simp add: dispatchTrainerAction_def handleTrainerAction_def js_index_def noRestRender_def
      noRest_def squat_def plank_def workoutApp_def firstSet_def startRestTimer_def Let_def
      second_def tick_def clearInterval_def)

lemma timer_ok_stopWorkout: "timer_ok app \<Longrightarrow> timer_ok (state_of (stopWorkout exs i d app))"
  by (auto simp: timer_ok_cases stopWorkout_def Let_def clearInterval_def
      split: option.splits sum.splits)

lemma timer_ok_dispatchTrainerAction:
  "timer_ok app \<Longrightarrow> timer_ok (dispatchTrainerAction r a app)"
proof -
  assume ok: "timer_ok app"
  have 1: "timer_ok (app\<lparr>renderError := e\<rparr>)" for e
    using ok by (simp add: timer_ok_def split: list.splits)
  have 2: "timer_ok ((app\<lparr>pendingStops := p\<rparr>)\<lparr>workoutState := s\<rparr>)" for p s
    using ok by (simp add: timer_ok_def split: list.splits)
  have 3: "timer_ok ((startRestTimer n app)\<lparr>workoutState := s\<rparr>)" for n s
    using timer_ok_startRestTimer [OF ok, of n] by (simp add: timer_ok_def split: list.splits)
  have 4: "timer_ok (app\<lparr>workoutState := s\<rparr>)" for s
    using ok by (simp add: timer_ok_def split: list.splits)
  show ?thesis
    by (simp add: dispatchTrainerAction_def handleTrainerAction_def Let_def 1 2 3 4 ok
        split: option.splits)
qed

section \<open>The invariant of the workout state\<close>

lemma inv_finish_set:
  assumes "WorkoutState_inv exs s" and "handleTrainerAction exs a s = Inr (s', effs)"
    and "\<forall>ex. js_index exs (currentExerciseIndex s) = Some ex \<longrightarrow> 1 \<le> restSeconds ex"
  shows "WorkoutState_inv exs s'"
  using assms
  by (auto simp: handleTrainerAction_def WorkoutState_inv_def Let_def
      split: if_splits option.splits)

lemma active_finish_set_returns:
  assumes "WorkoutState_inv exs s" and "isActive s"
  shows "\<exists>s' effs. handleTrainerAction exs a s = Inr (s', effs)"
proof -
  from assms obtain ex where "js_index exs (currentExerciseIndex s) = Some ex"
    by (auto simp: WorkoutState_inv_def js_index_def)
  then show ?thesis by (simp add: handleTrainerAction_def Let_def)
qed

lemma inv_handleDifficultyChange:
  assumes "WorkoutState_inv (activeExercises app) (workoutState app)"
  shows "WorkoutState_inv (activeExercises (state_of (handleDifficultyChange adj r d app)))
           (workoutState (state_of (handleDifficultyChange adj r d app)))"
  using assms
  by (simp add: WorkoutState_inv_def handleDifficultyChange_exercises
      handleDifficultyChange_counters split: option.splits)

lemma inv_tick:
  assumes "WorkoutState_inv (activeExercises app) (workoutState app)"
  shows "WorkoutState_inv (activeExercises (tick t app)) (workoutState (tick t app))"
  using assms
  by (auto simp: tick_def WorkoutState_inv_def Let_def clearInterval_def split: option.splits)

lemma inv_ticks:
  assumes "WorkoutState_inv (activeExercises app) (workoutState app)"
  shows "WorkoutState_inv (activeExercises (fold tick ts app)) (workoutState (fold tick ts app))"
  using assms by (induction ts arbitrary: app) (simp_all add: inv_tick)

text \<open>
  C5 as the code has it. From a state that satisfies the invariant against the exercise
  list: \<open>finish_set\<close> (and any other action) handled with that list preserves the invariant
  when the current exercise rests for at least one second, and it returns a state whenever
  the workout is active; a difficulty change, a tick of any timer and a whole second
  preserve the invariant.
\<close>

theorem C5_invariant_preserved:
  assumes "WorkoutState_inv (activeExercises app) (workoutState app)"
  shows "(\<forall>s' effs.
            handleTrainerAction (activeExercises app) a (workoutState app) = Inr (s', effs) \<and>
            (\<forall>ex. js_index (activeExercises app) (currentExerciseIndex (workoutState app)) = Some ex
                    \<longrightarrow> 1 \<le> restSeconds ex)
            \<longrightarrow> WorkoutState_inv (activeExercises app) s') \<and>
         (isActive (workoutState app) \<longrightarrow>
            (\<exists>s' effs. handleTrainerAction (activeExercises app) a (workoutState app) = Inr (s', effs))) \<and>
         WorkoutState_inv (activeExercises (state_of (handleDifficultyChange adj r d app)))
           (workoutState (state_of (handleDifficultyChange adj r d app))) \<and>
         WorkoutState_inv (activeExercises (tick t app)) (workoutState (tick t app)) \<and>
         WorkoutState_inv (activeExercises (second app)) (workoutState (second app))"
  using inv_finish_set [OF assms] active_finish_set_returns [OF assms]
    inv_handleDifficultyChange [OF assms] inv_tick [OF assms] inv_ticks [OF assms]
  unfolding second_def by blast

theorem C5_witness:
  "WorkoutState_inv (activeExercises restingApp)
     (firstSet\<lparr>currentExerciseIndex := 1, currentSet := 1, timer := 0, isResting := False\<rparr>) \<and>
   WorkoutState_inv (activeExercises (second restingApp)) (workoutState (second restingApp)) \<and>
   workoutState (second restingApp) = firstSet\<lparr>currentSet := 2, timer := 0, isResting := False\<rparr>"
proof -
  have a: "WorkoutState_inv (activeExercises restingApp) (workoutState restingApp)"
    by (simp add: WorkoutState_inv_def restingApp_def workoutApp_def firstSet_def)
  have b: "handleTrainerAction (activeExercises restingApp) (Some ''finish_set'')
             (workoutState restingApp) =
           Inr (firstSet\<lparr>currentExerciseIndex := 1, currentSet := 1, timer := 0,
                          isResting := False\<rparr>, []) \<and>
           (\<forall>ex. js_index (activeExercises restingApp)
                   (currentExerciseIndex (workoutState restingApp)) = Some ex
                 \<longrightarrow> 1 \<le> restSeconds ex)"
    by (simp add: handleTrainerAction_def js_index_def restingApp_def workoutApp_def firstSet_def
        squat_def plank_def)
  note step = C5_invariant_preserved [OF a, of "Some ''finish_set''" sampleAdjust workoutRender None 1]
  from step [THEN conjunct1, THEN spec, THEN spec, THEN mp, OF b]
  have 1: "WorkoutState_inv (activeExercises restingApp)
     (firstSet\<lparr>currentExerciseIndex := 1, currentSet := 1, timer := 0, isResting := False\<rparr>)" .
  from step have 2: "WorkoutState_inv (activeExercises (second restingApp)) (workoutState (second restingApp))"
    by (elim conjE)
  have 3: "workoutState (second restingApp) = firstSet\<lparr>currentSet := 2, timer := 0, isResting := False\<rparr>"
    by (simp add: second_def tick_def clearInterval_def Let_def restingApp_def workoutApp_def
        firstSet_def)
  from 1 2 3 show ?thesis by (intro conjI)
qed

text \<open>
  The claim as written fails: with no rest after a set, \<open>finish_set\<close> takes a state that
  satisfies the invariant to one with the timer at 0 and \<open>isResting\<close> set.
\<close>

theorem C5_counterexample:
  "WorkoutState_inv noRest firstSet \<and>
   handleTrainerAction noRest (Some ''finish_set'') firstSet =
     Inr (firstSet\<lparr>currentSet := 2, timer := 0, isResting := True\<rparr>, [StartRestTimer 0]) \<and>
   \<not> WorkoutState_inv noRest (firstSet\<lparr>currentSet := 2, timer := 0, isResting := True\<rparr>)"
  by (simp add: WorkoutState_inv_def handleTrainerAction_def js_index_def noRest_def firstSet_def
      squat_def plank_def)

end
